theory Spec2Isabelle
  imports Complex_Main "HOL-Library.Sublist"
begin

section \<open>Time values\<close>

text \<open>
  Modelled from the spec: the class \<open>rational\<close> (common/rational.h), which the render
  backend computes with and whose source is not part of the sources at hand, is a
  rational number whose arithmetic is exact.  It is HOL's \<open>rat\<close> here.  A \<open>TimeRange\<close> is
  the pair of its \<open>in()\<close> and \<open>out()\<close> points.
\<close>

type_synonym rational = rat

type_synonym TimeRange = "rational \<times> rational"

definition range_in :: "TimeRange \<Rightarrow> rational" where
  "range_in t = fst t"

definition range_out :: "TimeRange \<Rightarrow> rational" where
  "range_out t = snd t"

text \<open>
  Modelled from the spec: \<open>numerator()\<close> and \<open>denominator()\<close> of a \<open>rational\<close> are those of
  the fraction in lowest terms, with a positive denominator.
\<close>

definition numerator :: "rational \<Rightarrow> int" where
  "numerator r = fst (quotient_of r)"

definition denominator :: "rational \<Rightarrow> int" where
  "denominator r = snd (quotient_of r)"

type_synonym QByteArray = string

section \<open>Faults\<close>

text \<open>
  What the C++ code does not return from normally: a loop that never ends, a null pointer
  that is dereferenced, an index beyond the end of a vector, a write beyond the end of a
  buffer.
\<close>

datatype fault = NonTermination | NullPointer | IndexOutOfRange | BufferOverrun

section \<open>The cache queue of VideoRenderBackend::InvalidateCache\<close>

text \<open>
  Lines 78 to 92 of the video backend: the scan of the queue for one point \<open>r\<close> whose
  weighted distance is \<open>diff\<close>.  The result is the flag \<open>added\<close> and the queue.
\<close>

fun queue_scan :: "rational \<Rightarrow> rational \<Rightarrow> rational \<Rightarrow> TimeRange list \<Rightarrow> bool \<times> TimeRange list" where
  "queue_scan last_time diff r [] = (False, [])"
| "queue_scan last_time diff r (c # cs) =
     (let compare = range_in c;
          compare_diff = compare - last_time
      in if compare_diff > diff then (True, (r, r) # c # cs)
         else if compare = r then (True, c # cs)
         else (let (added, cs') = queue_scan last_time diff r cs in (added, c # cs')))"

text \<open>
  Lines 65 to 72: the distance of the point \<open>r\<close> to the last requested time, five times
  its magnitude when the point is before that time.
\<close>

definition point_diff :: "rational \<Rightarrow> rational \<Rightarrow> rational" where
  "point_diff last_time r =
     (let diff = r - last_time
      in if diff < 0 then \<bar>diff\<bar> * 5 else diff)"

text \<open>Lines 63 to 96: the body of the loop over the points, for the point \<open>r\<close>.\<close>

definition queue_point :: "rational \<Rightarrow> rational \<Rightarrow> TimeRange list \<Rightarrow> TimeRange list" where
  "queue_point last_time r q =
     (let diff = point_diff last_time r;
          (added, q') = queue_scan last_time diff r q
      in if \<not> added then q' @ [(r, r)] else q')"

text \<open>
  Line 61: \<open>for (rational r = true_start_range; r <= end_range_adj; r += time_base)\<close>.
  Nothing bounds the number of rounds when the time base is not positive, so the loop is a
  partial function: \<open>None\<close> is the loop that never ends.
\<close>

partial_function (option) invalidate_loop ::
  "rational \<Rightarrow> rational \<Rightarrow> rational \<Rightarrow> rational \<Rightarrow> TimeRange list \<Rightarrow> TimeRange list option" where
  "invalidate_loop time_base last_time end_range_adj r q =
     (if r \<le> end_range_adj
      then invalidate_loop time_base last_time end_range_adj (r + time_base)
             (queue_point last_time r q)
      else Some q)"

section \<open>Render parameters, frame cache, workers and threads\<close>

text \<open>
  \<open>VideoRenderingParams\<close> (render/videoparams.h) is declared outside the sources at hand.
  The record holds the values the backend reads from it.  What \<open>is_valid()\<close> computes is
  not known, so its result is a field of its own.
\<close>

record VideoRenderingParams =
  width :: int
  height :: int
  time_base :: rational
  format :: int
  mode :: int
  divider :: int
  is_valid :: bool

text \<open>
  Modelled from the spec: \<open>VideoRenderFrameCache\<close>, which the backend uses and whose source
  is not at hand, is a mapping from a time to a content hash, scoped under a cache ID.
\<close>

record VideoRenderFrameCache =
  time_hash_map :: "rational \<rightharpoonup> QByteArray"
  frame_cache_id :: string

text \<open>
  Modelled from the spec: \<open>TimeToHash\<close> of the frame cache returns the stored content hash
  for the time, or an empty one if there is none.
\<close>

definition TimeToHash :: "VideoRenderFrameCache \<Rightarrow> rational \<Rightarrow> QByteArray" where
  "TimeToHash fc t = (case time_hash_map fc t of None \<Rightarrow> [] | Some h \<Rightarrow> h)"

text \<open>
  Modelled from the spec: \<open>Truncate\<close> of the frame cache drops the mappings of all times
  beyond its argument and deletes no file.
\<close>

definition Truncate :: "rational \<Rightarrow> VideoRenderFrameCache \<Rightarrow> VideoRenderFrameCache" where
  "Truncate max_time fc =
     fc\<lparr>time_hash_map := (\<lambda>t. if t > max_time then None else time_hash_map fc t)\<rparr>"

text \<open>
  Modelled from the spec: \<open>SetCacheID\<close> of the frame cache rebinds the cache to a name space
  and keeps the mapping table.
\<close>

definition SetCacheID :: "string \<Rightarrow> VideoRenderFrameCache \<Rightarrow> VideoRenderFrameCache" where
  "SetCacheID i fc = fc\<lparr>frame_cache_id := i\<rparr>"

text \<open>
  A \<open>NodeDependency\<close> is the graph output to evaluate (absent when the input of the viewer
  is not connected) with the \<open>in\<close> and \<open>out\<close> points of the range.  A request is a queued
  invocation of a slot of a worker.
\<close>

type_synonym 'n NodeDependency = "'n option \<times> rational \<times> rational"

datatype 'n request = Render "'n NodeDependency" | RenderAsSibling "'n NodeDependency"

text \<open>
  A worker, as far as the backend sees it: the flag behind \<open>IsAvailable()\<close>, the index of
  the thread it was moved to, whether its signals are connected to the backend, the
  parameters it was given, and the invocations queued for it.
\<close>

record 'n RenderWorker =
  available :: bool
  worker_thread :: "nat option"
  signals_connected :: bool
  worker_params :: "VideoRenderingParams option"
  inbox :: "'n request list"

datatype Priority = InheritPriority | LowPriority

record QThread =
  running :: bool
  priority :: Priority

section \<open>The state of the backend\<close>

text \<open>
  The members of \<open>RenderBackend\<close> and of \<open>VideoRenderBackend\<close>, named as in the
  code without the underscore that ends each name there.  The nodes of the copied
  graph are owned by the backend; \<open>copied_viewer_node\<close> points to one of them and is an
  index into \<open>copied_graph\<close>.  \<open>viewer_node\<close> and \<open>source_node_list\<close> point into the
  live graph, which the backend only reads: a node of the live graph is there as the
  value it has when the backend reads it, and an edit of the live graph changes that
  value from outside.
\<close>

record 'n RenderBackend =
  compiled :: bool
  caching :: bool
  started :: bool
  viewer_node :: "'n option"
  copied_viewer_node :: "nat option"
  copied_graph :: "'n list"
  source_node_list :: "'n list"
  value_update_queued :: bool
  value_update_range :: TimeRange
  recompile_queued :: bool
  threads :: "QThread list"
  processors :: "'n RenderWorker list"
  decoder_cache :: "string list"
  cache_queue :: "TimeRange list"
  cache_name :: string
  cache_time :: int
  cache_id :: string
  error :: string
  params :: VideoRenderingParams
  last_time_requested :: rational
  frame_cache :: VideoRenderFrameCache
  cache_frame_load_buffer :: QByteArray

section \<open>Collaborators\<close>

text \<open>
  What the backend calls and the sources at hand do not define: the host, the operations
  of the node graph, the virtual functions a subclass of the backend overrides, the
  pixel service, the hash function, the file system and the image library.  They are the
  parameters of the model.

  \<open>qFloor_double start den num\<close> is the \<open>int\<close> that
  \<open>qFloor(start.toDouble() * double(den) / double(num))\<close> gives.  The code computes it in
  double precision, where every step rounds, and converts the result to a 32-bit \<open>int\<close>; it
  need not be the floor of the exact quotient, so the model takes it as it comes.

  \<open>read_image fn format\<close> is what \<open>read_image\<close> of the opened file \<open>fn\<close> does for the format:
  its status, and the bytes it writes from the address it is given on.
\<close>

record 'n collab =
  idealThreadCount :: nat
  node_copy :: "'n \<Rightarrow> 'n"
  GetDependencies :: "'n \<Rightarrow> 'n list"
  CopyInputs :: "'n \<Rightarrow> 'n \<Rightarrow> 'n"
  DuplicateConnectionsBetweenLists :: "'n list \<Rightarrow> 'n list \<Rightarrow> 'n list"
  drop_cached_values_overlapping :: "TimeRange \<Rightarrow> 'n \<Rightarrow> 'n"
  get_connected_output :: "'n \<Rightarrow> 'n option"
  Length :: "'n \<Rightarrow> rational"
  viewer_params :: "'n \<Rightarrow> VideoRenderingParams"
  InitInternal :: "'n RenderBackend \<Rightarrow> bool \<times> 'n RenderBackend"
  CloseInternal :: "'n RenderBackend \<Rightarrow> 'n RenderBackend"
  CompileInternal :: "'n RenderBackend \<Rightarrow> bool \<times> 'n RenderBackend"
  DecompileInternal :: "'n RenderBackend \<Rightarrow> 'n RenderBackend"
  WorkerInit :: "'n RenderWorker \<Rightarrow> 'n RenderWorker"
  Sha1 :: "QByteArray \<Rightarrow> QByteArray"
  CachePathName :: "VideoRenderFrameCache \<Rightarrow> QByteArray \<Rightarrow> string"
  file_exists :: "string \<Rightarrow> bool"
  image_open :: "string \<Rightarrow> bool"
  read_image :: "string \<Rightarrow> int \<Rightarrow> bool \<times> QByteArray"
  qFloor_double :: "rational \<Rightarrow> int \<Rightarrow> int \<Rightarrow> int"

section \<open>RenderBackend: threads and workers\<close>

text \<open>
  \<open>InitWorkers\<close>: every worker is connected, moved to the thread of its own index and
  initialised.  \<open>threads().at(i)\<close> is outside the vector when there are more workers than
  threads.
\<close>

definition InitWorkers :: "'n collab \<Rightarrow> 'n RenderBackend \<Rightarrow> fault + 'n RenderBackend" where
  "InitWorkers col s =
     (if length (processors s) > length (threads s) then Inl IndexOutOfRange
      else Inr (s\<lparr>processors :=
                  map (\<lambda>(i, processor).
                         WorkerInit col (processor\<lparr>worker_thread := Some i, signals_connected := True\<rparr>))
                      (enumerate 0 (processors s))\<rparr>))"

text \<open>
  \<open>Close\<close>.  Every thread is asked to quit and waited for; the model takes it that each
  of them ends.
\<close>

definition Close :: "'n collab \<Rightarrow> 'n RenderBackend \<Rightarrow> 'n RenderBackend" where
  "Close col s =
     (if \<not> started s then s
      else (let s1 = s\<lparr>started := False\<rparr>;
                s2 = CloseInternal col s1;
                s3 = s2\<lparr>decoder_cache := []\<rparr>;
                s4 = s3\<lparr>threads := []\<rparr>
            in s4\<lparr>processors := []\<rparr>))"

definition Init :: "'n collab \<Rightarrow> 'n RenderBackend \<Rightarrow> fault + (bool \<times> 'n RenderBackend)" where
  "Init col s =
     (if started s then Inr (True, s)
      else (let s1 = s\<lparr>threads :=
                       replicate (idealThreadCount col) \<lparr>running = True, priority = LowPriority\<rparr>\<rparr>;
                (ok, s2) = InitInternal col s1;
                s3 = s2\<lparr>started := ok\<rparr>
            in case InitWorkers col s3 of
                 Inl f \<Rightarrow> Inl f
               | Inr s4 \<Rightarrow>
                   (let s5 = (if \<not> started s4 then Close col s4 else s4)
                    in Inr (started s5, s5))))"

definition IsInitiated :: "'n RenderBackend \<Rightarrow> bool" where
  "IsInitiated s = started s"

definition GetError :: "'n RenderBackend \<Rightarrow> string" where
  "GetError s = error s"

definition SetError :: "string \<Rightarrow> 'n RenderBackend \<Rightarrow> 'n RenderBackend" where
  "SetError e s = s\<lparr>error := e\<rparr>"

text \<open>
  The overrides of \<open>VideoRenderBackend\<close>.  \<open>buffer_size\<close> stands for
  \<open>PixelService::GetBufferSize\<close> applied to the format and the effective width and height
  of the parameters.  \<open>resize\<close> keeps the bytes it has and fills up with bytes the code
  does not initialise, which are zero here.
\<close>

definition resize :: "nat \<Rightarrow> QByteArray \<Rightarrow> QByteArray" where
  "resize n b = take n b @ replicate (n - length b) (CHR 0x00)"

definition VideoRenderBackend_InitInternal ::
  "(VideoRenderingParams \<Rightarrow> nat) \<Rightarrow> 'n RenderBackend \<Rightarrow> bool \<times> 'n RenderBackend" where
  "VideoRenderBackend_InitInternal buffer_size s =
     (True, s\<lparr>cache_frame_load_buffer :=
                resize (buffer_size (params s)) (cache_frame_load_buffer s)\<rparr>)"

definition VideoRenderBackend_CloseInternal :: "'n RenderBackend \<Rightarrow> 'n RenderBackend" where
  "VideoRenderBackend_CloseInternal s = s\<lparr>cache_frame_load_buffer := []\<rparr>"

section \<open>RenderBackend: the compiled copy of the graph\<close>

definition Decompile :: "'n collab \<Rightarrow> 'n RenderBackend \<Rightarrow> 'n RenderBackend" where
  "Decompile col s =
     (if \<not> compiled s then s
      else (let s1 = DecompileInternal col s
            in s1\<lparr>copied_graph := [], copied_viewer_node := None,
                   source_node_list := [], compiled := False\<rparr>))"

text \<open>
  \<open>Compile\<close>.  \<open>viewer_node->GetDependencies()\<close> dereferences the viewer node.  The copies
  are made of every node of \<open>source_node_list\<close> and appended to the copied graph; the
  copied viewer node is the first node of the copied graph, whose connections are set
  afterwards.
\<close>

definition Compile :: "'n collab \<Rightarrow> 'n RenderBackend \<Rightarrow> fault + (bool \<times> 'n RenderBackend)" where
  "Compile col s =
     (if \<not> recompile_queued s \<and> compiled s then Inr (True, s)
      else (let s0 = (if recompile_queued s
                      then (Decompile col s)\<lparr>recompile_queued := False\<rparr> else s)
            in case viewer_node s0 of
                 None \<Rightarrow> Inl NullPointer
               | Some v \<Rightarrow>
                   (let sources = source_node_list s0 @ [v] @ GetDependencies col v;
                        copies = copied_graph s0 @
                                 map (\<lambda>n. CopyInputs col n (node_copy col n)) sources;
                        s1 = s0\<lparr>source_node_list := sources, copied_graph := copies,
                                copied_viewer_node := Some 0\<rparr>;
                        s2 = s1\<lparr>copied_graph :=
                                  DuplicateConnectionsBetweenLists col sources copies\<rparr>;
                        (ok, s3) = CompileInternal col s2;
                        s4 = s3\<lparr>compiled := ok\<rparr>;
                        s5 = (if \<not> compiled s4 then Decompile col s4 else s4)
                    in Inr (compiled s5, s5))))"

definition QueueRecompile :: "'n RenderBackend \<Rightarrow> 'n RenderBackend" where
  "QueueRecompile s = s\<lparr>recompile_queued := True\<rparr>"

text \<open>\<open>viewer_node()\<close> returns the pointer to the copied viewer node.\<close>

definition viewer_node_accessor :: "'n RenderBackend \<Rightarrow> nat option" where
  "viewer_node_accessor s = copied_viewer_node s"

definition ViewerIsConnected :: "'n RenderBackend \<Rightarrow> bool" where
  "ViewerIsConnected s = (viewer_node s \<noteq> None)"

definition SequenceLength :: "'n collab \<Rightarrow> 'n RenderBackend \<Rightarrow> rational" where
  "SequenceLength col s = (case viewer_node s of None \<Rightarrow> 0 | Some v \<Rightarrow> Length col v)"

section \<open>The cache ID\<close>

text \<open>
  \<open>QString::number\<close> of an integer, in base ten, and \<open>QByteArray::toHex\<close>.  A
  \<open>QCryptographicHash\<close> is the data added to it so far; its result is \<open>Sha1\<close> of the data.
\<close>

fun number_nat :: "nat \<Rightarrow> string" where
  "number_nat n =
     (if n < 10 then [''0123456789'' ! n]
      else number_nat (n div 10) @ [''0123456789'' ! (n mod 10)])"

definition QString_number :: "int \<Rightarrow> string" where
  "QString_number i = (if i < 0 then CHR ''-'' # number_nat (nat (- i)) else number_nat (nat i))"

definition toHex :: "QByteArray \<Rightarrow> string" where
  "toHex b =
     concat (map (\<lambda>c. [''0123456789abcdef'' ! (of_char c div 16),
                        ''0123456789abcdef'' ! (of_char c mod 16)]) b)"

type_synonym QCryptographicHash = QByteArray

definition addData :: "QByteArray \<Rightarrow> QCryptographicHash \<Rightarrow> QCryptographicHash" where
  "addData d hash = hash @ d"

definition GenerateCacheIDInternal ::
  "'n RenderBackend \<Rightarrow> QCryptographicHash \<Rightarrow> bool \<times> QCryptographicHash" where
  "GenerateCacheIDInternal s hash =
     (if \<not> is_valid (params s) then (False, hash)
      else (let hash = addData (QString_number (width (params s))) hash;
                hash = addData (QString_number (height (params s))) hash;
                hash = addData (QString_number (format (params s))) hash;
                hash = addData (QString_number (divider (params s))) hash
            in (True, hash)))"

definition CacheIDChangedEvent :: "string \<Rightarrow> 'n RenderBackend \<Rightarrow> 'n RenderBackend" where
  "CacheIDChangedEvent i s = s\<lparr>frame_cache := SetCacheID i (frame_cache s)\<rparr>"

definition RegenerateCacheID :: "'n collab \<Rightarrow> 'n RenderBackend \<Rightarrow> 'n RenderBackend" where
  "RegenerateCacheID col s =
     (let hash = []
      in if cache_name s = [] then CacheIDChangedEvent [] (s\<lparr>cache_id := []\<rparr>)
         else if cache_time s = 0 then CacheIDChangedEvent [] (s\<lparr>cache_id := []\<rparr>)
         else if \<not> fst (GenerateCacheIDInternal s hash)
         then CacheIDChangedEvent [] (s\<lparr>cache_id := []\<rparr>)
         else (let hash = snd (GenerateCacheIDInternal s hash);
                   hash = addData (cache_name s) hash;
                   hash = addData (QString_number (cache_time s)) hash;
                   bytes = Sha1 col hash;
                   s1 = s\<lparr>cache_id := toHex bytes\<rparr>
               in CacheIDChangedEvent (cache_id s1) s1))"

text \<open>
  The three conditions of \<open>RegenerateCacheID\<close> and the four of \<open>CacheNext\<close> below are
  joined by \<open>||\<close> in the code, which tests them from left to right and stops at the
  first that holds.
\<close>

text \<open>\<open>now\<close> is what \<open>QDateTime::currentMSecsSinceEpoch()\<close> returns at the call.\<close>

definition SetCacheName :: "'n collab \<Rightarrow> int \<Rightarrow> string \<Rightarrow> 'n RenderBackend \<Rightarrow> 'n RenderBackend" where
  "SetCacheName col now name s = RegenerateCacheID col (s\<lparr>cache_name := name, cache_time := now\<rparr>)"

definition SetParameters ::
  "'n collab \<Rightarrow> VideoRenderingParams \<Rightarrow> 'n RenderBackend \<Rightarrow> 'n RenderBackend" where
  "SetParameters col p s =
     (let s1 = s\<lparr>params := p\<rparr>;
          s2 = s1\<lparr>processors :=
                    map (\<lambda>worker. worker\<lparr>worker_params := Some (params s1)\<rparr>) (processors s1)\<rparr>
      in RegenerateCacheID col s2)"

section \<open>Dispatching the queue\<close>

definition QueueValueUpdate :: "TimeRange \<Rightarrow> 'n RenderBackend \<Rightarrow> 'n RenderBackend" where
  "QueueValueUpdate rng s = s\<lparr>value_update_queued := True, value_update_range := rng\<rparr>"

text \<open>
  \<open>UpdateNodeInputs\<close>: the node of the copied graph at the index of each source node gets
  the values of the inputs of the source node, and the cached values of its outputs that
  overlap the range are dropped.  \<open>copied_graph.nodes().at(i)\<close> is outside the list when
  the copied graph is shorter than the list of the source nodes.
\<close>

definition UpdateNodeInputs :: "'n collab \<Rightarrow> 'n RenderBackend \<Rightarrow> fault + 'n RenderBackend" where
  "UpdateNodeInputs col s =
     (if value_update_queued s
      then (if length (copied_graph s) < length (source_node_list s) then Inl IndexOutOfRange
            else Inr (s\<lparr>copied_graph :=
                          map (\<lambda>(src, dst).
                                 drop_cached_values_overlapping col (value_update_range s)
                                   (CopyInputs col src dst))
                              (zip (source_node_list s) (copied_graph s))
                          @ drop (length (source_node_list s)) (copied_graph s),
                        value_update_queued := False\<rparr>))
      else Inr s)"

text \<open>
  The loop of \<open>GenerateData\<close> over the workers: the first worker that is available, or is
  the last one, gets the invocation of \<open>Render\<close> queued.
\<close>

fun hand_over :: "'n request \<Rightarrow> 'n RenderWorker list \<Rightarrow> bool \<times> 'n RenderWorker list" where
  "hand_over rq [] = (False, [])"
| "hand_over rq (worker # ws) =
     (if available worker \<or> ws = [] then (True, worker\<lparr>inbox := inbox worker @ [rq]\<rparr> # ws)
      else (let (b, ws') = hand_over rq ws in (b, worker # ws')))"

text \<open>
  \<open>GenerateData\<close>.  \<open>GetDependentInput()\<close> of the video backend dereferences the copied
  viewer node.
\<close>

definition GenerateData ::
  "'n collab \<Rightarrow> TimeRange \<Rightarrow> 'n RenderBackend \<Rightarrow> fault + (bool \<times> 'n RenderBackend)" where
  "GenerateData col rng s =
     (case Compile col s of
        Inl f \<Rightarrow> Inl f
      | Inr (ok, s1) \<Rightarrow>
          if \<not> ok then Inr (False, s1)
          else (case viewer_node_accessor s1 of
                  None \<Rightarrow> Inl NullPointer
                | Some i \<Rightarrow>
                    if i \<ge> length (copied_graph s1) then Inl NullPointer
                    else (let dep = (get_connected_output col (copied_graph s1 ! i),
                                     range_in rng, range_out rng);
                              (b, ws) = hand_over (Render dep) (processors s1)
                          in Inr (b, s1\<lparr>processors := ws\<rparr>))))"

definition CacheNext :: "'n collab \<Rightarrow> 'n RenderBackend \<Rightarrow> fault + 'n RenderBackend" where
  "CacheNext col s =
     (case Init col s of
        Inl f \<Rightarrow> Inl f
      | Inr (ok, s1) \<Rightarrow>
          if \<not> ok then Inr s1
          else if cache_queue s1 = [] then Inr s1
          else if \<not> ViewerIsConnected s1 then Inr s1
          else if caching s1 then Inr s1
          else (case UpdateNodeInputs col s1 of
                  Inl f \<Rightarrow> Inl f
                | Inr s2 \<Rightarrow>
                    (case cache_queue s2 of
                       [] \<Rightarrow> Inl IndexOutOfRange
                     | cache_frame # rest \<Rightarrow>
                         (case GenerateData col cache_frame (s2\<lparr>cache_queue := rest\<rparr>) of
                            Inl f \<Rightarrow> Inl f
                          | Inr (b, s3) \<Rightarrow> Inr (s3\<lparr>caching := b\<rparr>)))))"

section \<open>VideoRenderBackend: invalidation and lookup\<close>

text \<open>
  Lines 55 to 59 of the video backend: the start of the range snapped to the time base.
  The quotient and its floor are computed in double precision (\<open>qFloor_double\<close>); the
  product with the numerator and the \<open>rational\<close> made of it are exact.
\<close>

definition true_start_range :: "'n collab \<Rightarrow> rational \<Rightarrow> rational \<Rightarrow> rational" where
  "true_start_range col tb start_range_adj =
     (let start_range_numround =
            qFloor_double col start_range_adj (denominator tb) (numerator tb) * numerator tb
      in Fract start_range_numround (denominator tb))"

definition InvalidateCache ::
  "'n collab \<Rightarrow> rational \<Rightarrow> rational \<Rightarrow> 'n RenderBackend \<Rightarrow> fault + 'n RenderBackend" where
  "InvalidateCache col start_range end_range s =
     (if \<not> is_valid (params s) then Inr s
      else (let start_range_adj = max 0 start_range;
                end_range_adj = min (SequenceLength col s) end_range;
                start = true_start_range col (time_base (params s)) start_range_adj
            in case invalidate_loop (time_base (params s)) (last_time_requested s)
                      end_range_adj start (cache_queue s) of
                 None \<Rightarrow> Inl NonTermination
               | Some q \<Rightarrow>
                   (let s1 = s\<lparr>cache_queue := q\<rparr>;
                        s2 = s1\<lparr>frame_cache :=
                                  Truncate (SequenceLength col s1) (frame_cache s1)\<rparr>;
                        s3 = QueueValueUpdate (start_range, end_range) s2
                    in CacheNext col s3)))"

text \<open>
  \<open>GetCachedFrame\<close> returns a pointer to the load buffer or the null pointer; the model
  returns the bytes of the buffer or \<open>None\<close>, with the state.  \<open>read_image\<close> writes the
  pixels of the image into the load buffer from its first byte on; the buffer has the
  size \<open>InitInternal\<close> gave it, and an image of more bytes is written beyond its end.  The
  status of \<open>read_image\<close> is not looked at by the code.
\<close>

definition GetCachedFrame ::
  "'n collab \<Rightarrow> rational \<Rightarrow> 'n RenderBackend \<Rightarrow>
   (fault + QByteArray option) \<times> 'n RenderBackend" where
  "GetCachedFrame col time s =
     (let s1 = s\<lparr>last_time_requested := time\<rparr>
      in if viewer_node_accessor s1 = None then (Inr None, s1)
         else if cache_id s1 = [] then (Inr None, s1)
         else if \<not> is_valid (params s1) then (Inr None, s1)
         else (let frame_hash = TimeToHash (frame_cache s1) time
               in if frame_hash \<noteq> []
                  then (let fn = CachePathName col (frame_cache s1) frame_hash
                        in if file_exists col fn
                           then (if image_open col fn
                                 then (let (status, pixels) =
                                             read_image col fn (format (params s1))
                                       in if length pixels > length (cache_frame_load_buffer s1)
                                          then (Inl BufferOverrun, s1)
                                          else (let s2 = s1\<lparr>cache_frame_load_buffer :=
                                                  pixels @ drop (length pixels)
                                                             (cache_frame_load_buffer s1)\<rparr>
                                                in (Inr (Some (cache_frame_load_buffer s2)), s2)))
                                 else (Inr None, s1))
                           else (Inr None, s1))
                  else (Inr None, s1)))"

section \<open>Construction and the viewer node\<close>

text \<open>
  The constructors of \<open>RenderBackend\<close> and \<open>VideoRenderBackend\<close>: the flags are false, the
  pointers null, the containers empty, and the cache is named \<open>Test\<close>.
  \<open>default_params\<close> is what the default constructor of the parameters gives.
\<close>

definition VideoRenderBackend_new ::
  "'n collab \<Rightarrow> int \<Rightarrow> VideoRenderingParams \<Rightarrow> 'n RenderBackend" where
  "VideoRenderBackend_new col now default_params =
     SetCacheName col now ''Test''
       \<lparr>compiled = False, caching = False, started = False, viewer_node = None,
        copied_viewer_node = None, copied_graph = [], source_node_list = [],
        value_update_queued = False, value_update_range = (0, 0), recompile_queued = False,
        threads = [], processors = [], decoder_cache = [], cache_queue = [],
        cache_name = [], cache_time = 0, cache_id = [], error = [],
        params = default_params, last_time_requested = 0,
        frame_cache = \<lparr>time_hash_map = Map.empty, frame_cache_id = []\<rparr>,
        cache_frame_load_buffer = []\<rparr>"

text \<open>
  \<open>SetViewerNode\<close> with \<open>ConnectViewer\<close> of the video backend, which sets the parameters
  made of the video parameters of the node, the format RGBA16F, the offline mode and the
  divider 2; \<open>viewer_params\<close> stands for the parameters so made.  The connections of the
  signals of the node are the calls of \<open>InvalidateCache\<close> and \<open>QueueRecompile\<close> that the
  node makes later.
\<close>

definition ConnectViewer :: "'n collab \<Rightarrow> 'n \<Rightarrow> 'n RenderBackend \<Rightarrow> 'n RenderBackend" where
  "ConnectViewer col node s = SetParameters col (viewer_params col node) s"

definition SetViewerNode :: "'n collab \<Rightarrow> 'n option \<Rightarrow> 'n RenderBackend \<Rightarrow> 'n RenderBackend" where
  "SetViewerNode col node s =
     (let s1 = (if viewer_node s \<noteq> None then Decompile col s else s);
          s2 = s1\<lparr>viewer_node := node\<rparr>
      in case viewer_node s2 of None \<Rightarrow> s2 | Some v \<Rightarrow> ConnectViewer col v s2)"

section \<open>An instance of the collaborators\<close>

text \<open>
  A small instance on which the model is evaluated.  A node is its number, the value of
  its input and the time ranges for which its output has a cached value.  Node 1 is a
  viewer of length 10 with the time base 1 that depends on node 2; the copy of a node has
  its number plus 100.  \<open>CopyInputs\<close> gives the copy the value of the input of its source,
  \<open>drop_cached_values_overlapping\<close> removes the ranges that overlap the given one.  The
  host has two cores, the subclass makes one worker for each thread and always
  initialises and compiles, every file exists, opens and decodes to four bytes.

  \<open>qFloor_double\<close> is given where the computation in double precision is exact: the time
  base is 1 and the start is one of 0, 1/2, 1, 3 and 5, all of which a double holds
  exactly, as it does their products and quotients with 1.  Other starts are not used.
\<close>

type_synonym example_node = "nat \<times> int \<times> TimeRange list"

definition example_params :: VideoRenderingParams where
  "example_params =
     \<lparr>width = 1920, height = 1080, time_base = 1, format = 3, mode = 0, divider = 2,
      is_valid = True\<rparr>"

definition example_default_params :: VideoRenderingParams where
  "example_default_params =
     \<lparr>width = 0, height = 0, time_base = 0, format = 0, mode = 0, divider = 1,
      is_valid = False\<rparr>"

definition example_worker :: "example_node RenderWorker" where
  "example_worker =
     \<lparr>available = False, worker_thread = None, signals_connected = False,
      worker_params = None, inbox = []\<rparr>"

definition example_collab :: "example_node collab" where
  "example_collab =
     \<lparr>idealThreadCount = 2,
      node_copy = (\<lambda>(i, v, c). (i + 100, 0, [])),
      GetDependencies = (\<lambda>(i, v, c). if i = 1 then [(2, 9, [])] else []),
      CopyInputs = (\<lambda>(i, v, c) (j, w, d). (j, v, d)),
      DuplicateConnectionsBetweenLists = (\<lambda>src dst. dst),
      drop_cached_values_overlapping =
        (\<lambda>r (j, w, d). (j, w, filter (\<lambda>t. snd t < fst r \<or> snd r < fst t) d)),
      get_connected_output = (\<lambda>(j, w, d). if j = 101 then Some (102, 9, []) else None),
      Length = (\<lambda>n. 10),
      viewer_params = (\<lambda>n. example_params),
      InitInternal = (\<lambda>s. VideoRenderBackend_InitInternal (\<lambda>p. 4)
                           (s\<lparr>processors := replicate (length (threads s)) example_worker\<rparr>)),
      CloseInternal = VideoRenderBackend_CloseInternal,
      CompileInternal = (\<lambda>s. (True, s)),
      DecompileInternal = (\<lambda>s. s),
      WorkerInit = (\<lambda>w. w\<lparr>available := True\<rparr>),
      Sha1 = (\<lambda>d. d),
      CachePathName = (\<lambda>fc h. frame_cache_id fc @ ''/'' @ h),
      file_exists = (\<lambda>fn. True),
      image_open = (\<lambda>fn. True),
      read_image = (\<lambda>fn fmt. (True, ''RGBA'')),
      qFloor_double = (\<lambda>start den num.
                         if den = 1 \<and> num = 1 \<and> start \<in> set [0, 1 / 2, 1, 3, 5]
                         then \<lfloor>start\<rfloor> else 0)\<rparr>"

text \<open>A backend as constructed, and the same after the viewer node 1 was set.\<close>

definition example_new :: "example_node RenderBackend" where
  "example_new = VideoRenderBackend_new example_collab 1572 example_default_params"

definition example_backend :: "example_node RenderBackend" where
  "example_backend = SetViewerNode example_collab (Some (1, 7, [])) example_new"

text \<open>The backend of the example once its graph is compiled.\<close>

definition example_compiled :: "example_node RenderBackend" where
  "example_compiled =
     example_backend\<lparr>compiled := True, copied_viewer_node := Some 0,
                     copied_graph := [(101, 7, []), (102, 9, [])],
                     source_node_list := [(1, 7, []), (2, 9, [])]\<rparr>"

text \<open>
  A backend of the example with a dispatch in flight: the frame of the time 5 is with the
  first worker.
\<close>

definition example_busy :: "example_node RenderBackend" where
  "example_busy =
     example_compiled\<lparr>caching := True, started := True, value_update_range := (5, 5),
       threads := [\<lparr>running = True, priority = LowPriority\<rparr>,
                   \<lparr>running = True, priority = LowPriority\<rparr>],
       processors :=
         [\<lparr>available = True, worker_thread = Some 0, signals_connected = True,
           worker_params = None, inbox = [Render (Some (102, 9, []), 5, 5)]\<rparr>,
          \<lparr>available = True, worker_thread = Some 1, signals_connected = True,
           worker_params = None, inbox = []\<rparr>],
       cache_frame_load_buffer := [CHR 0x00, CHR 0x00, CHR 0x00, CHR 0x00]\<rparr>"



text \<open>
  A started backend of the example whose workers are idle and whose graph is not compiled,
  and the same with the time 1 in its queue.
\<close>

definition example_idle :: "example_node RenderBackend" where
  "example_idle =
     example_backend\<lparr>started := True,
       threads := [\<lparr>running = True, priority = LowPriority\<rparr>,
                   \<lparr>running = True, priority = LowPriority\<rparr>],
       processors :=
         [\<lparr>available = True, worker_thread = Some 0, signals_connected = True,
           worker_params = None, inbox = []\<rparr>,
          \<lparr>available = True, worker_thread = Some 1, signals_connected = True,
           worker_params = None, inbox = []\<rparr>],
       cache_frame_load_buffer := [CHR 0x00, CHR 0x00, CHR 0x00, CHR 0x00]\<rparr>"

definition example_queued :: "example_node RenderBackend" where
  "example_queued = example_idle\<lparr>cache_queue := [(1, 1)]\<rparr>"

text \<open>
  A backend whose graph is compiled and whose dispatch is done, with two times in its
  queue and a value update queued for the range from 1 to 2: the input of the live viewer
  node has the value 8 by now, and the copy of the viewer node has cached values for the
  times 1 and 5.
\<close>

definition example_ready :: "example_node RenderBackend" where
  "example_ready =
     example_busy\<lparr>caching := False, cache_queue := [(1, 1), (2, 2)],
       value_update_queued := True, value_update_range := (1, 2),
       viewer_node := Some (1, 8, []),
       source_node_list := [(1, 8, []), (2, 9, [])],
       copied_graph := [(101, 7, [(1, 1), (5, 5)]), (102, 9, [])]\<rparr>"

text \<open>
  The backend with a dispatch in flight, the copy of its viewer node having cached values
  for the times 0 and 5.
\<close>

definition example_rendered :: "example_node RenderBackend" where
  "example_rendered =
     example_busy\<lparr>copied_graph := [(101, 7, [(0, 0), (5, 5)]), (102, 9, [])]\<rparr>"

text \<open>
  Two variants of the collaborators: a subclass whose \<open>InitInternal\<close> fails, and one
  whose \<open>CompileInternal\<close> fails.
\<close>

definition example_failing_collab :: "example_node collab" where
  "example_failing_collab = example_collab\<lparr>InitInternal := (\<lambda>s. (False, s))\<rparr>"

definition example_uncompilable_collab :: "example_node collab" where
  "example_uncompilable_collab = example_collab\<lparr>CompileInternal := (\<lambda>s. (False, s))\<rparr>"

section \<open>Notions the properties are stated with\<close>

text \<open>One call after another, as long as no fault occurs.\<close>

definition and_then :: "fault + 'a \<Rightarrow> ('a \<Rightarrow> fault + 'b) \<Rightarrow> fault + 'b" where
  "and_then r f = (case r of Inl e \<Rightarrow> Inl e | Inr x \<Rightarrow> f x)"


text \<open>
  The cache ID as the spec words it, a hash over width, height, pixel format, divider,
  name and creation time, which is empty when the name is empty or the parameters are not
  valid; an empty ID for the creation time zero is added to it from the code.
\<close>

definition cache_id_of ::
  "'n collab \<Rightarrow> bool \<Rightarrow> int \<Rightarrow> int \<Rightarrow> int \<Rightarrow> int \<Rightarrow> string \<Rightarrow> int \<Rightarrow> string" where
  "cache_id_of col valid w h f d name time =
     (if name = [] then [] else if time = 0 then [] else if \<not> valid then []
      else toHex (Sha1 col (QString_number w @ QString_number h @ QString_number f
                            @ QString_number d @ name @ QString_number time)))"

text \<open>
  The worker the spec names for a dispatch: the first idle worker, or the last worker when
  none is idle.
\<close>

definition first_idle_or_last :: "'n RenderWorker list \<Rightarrow> nat" where
  "first_idle_or_last ws =
     (if list_ex available ws then length (takeWhile (\<lambda>w. \<not> available w) ws)
      else length ws - 1)"

section \<open>The example, evaluated\<close>

declare number_nat.simps [simp del]

lemma number_nat_eval:
  "number_nat 0 = ''0''" "number_nat 2 = ''2''" "number_nat 3 = ''3''"
  "number_nat 1920 = ''1920''" "number_nat 1080 = ''1080''" "number_nat 1572 = ''1572''"
  by (simp_all add: number_nat.simps)

lemma replicate_eval:
  "replicate 2 x = [x, x]" "replicate 4 x = [x, x, x, x]"
  by (simp_all add: eval_nat_numeral)

lemma Truncate_empty:
  "Truncate m \<lparr>time_hash_map = Map.empty, frame_cache_id = i\<rparr>
     = \<lparr>time_hash_map = Map.empty, frame_cache_id = i\<rparr>"
  by (simp add: Truncate_def fun_eq_iff)

lemma floor_half: "\<lfloor>(1 :: rat) / 2\<rfloor> = 0"
  by (rule floor_unique) simp_all

lemma example_new_eq:
  "example_new =
     \<lparr>compiled = False, caching = False, started = False, viewer_node = None,
      copied_viewer_node = None, copied_graph = [], source_node_list = [],
      value_update_queued = False, value_update_range = (0, 0), recompile_queued = False,
      threads = [], processors = [], decoder_cache = [], cache_queue = [],
      cache_name = ''Test'', cache_time = 1572, cache_id = [], error = [],
      params = example_default_params, last_time_requested = 0,
      frame_cache = \<lparr>time_hash_map = Map.empty, frame_cache_id = []\<rparr>,
      cache_frame_load_buffer = []\<rparr>"
  by (simp add: example_new_def VideoRenderBackend_new_def SetCacheName_def
      RegenerateCacheID_def GenerateCacheIDInternal_def example_default_params_def
      CacheIDChangedEvent_def SetCacheID_def)

lemmas cache_id_eval =
  SetParameters_def RegenerateCacheID_def GenerateCacheIDInternal_def example_params_def
  CacheIDChangedEvent_def SetCacheID_def example_collab_def addData_def
  QString_number_def number_nat_eval toHex_def Let_def

lemma example_backend_eq:
  "example_backend =
     \<lparr>compiled = False, caching = False, started = False, viewer_node = Some (1, 7, []),
      copied_viewer_node = None, copied_graph = [], source_node_list = [],
      value_update_queued = False, value_update_range = (0, 0), recompile_queued = False,
      threads = [], processors = [], decoder_cache = [], cache_queue = [],
      cache_name = ''Test'', cache_time = 1572,
      cache_id = ''313932303130383033325465737431353732'', error = [],
      params = example_params, last_time_requested = 0,
      frame_cache = \<lparr>time_hash_map = Map.empty,
                      frame_cache_id = ''313932303130383033325465737431353732''\<rparr>,
      cache_frame_load_buffer = []\<rparr>"
  by (simp add: example_backend_def example_new_eq SetViewerNode_def ConnectViewer_def
      cache_id_eval)

lemma example_busy_eq:
  "example_busy =
     \<lparr>compiled = True, caching = True, started = True, viewer_node = Some (1, 7, []),
      copied_viewer_node = Some 0, copied_graph = [(101, 7, []), (102, 9, [])],
      source_node_list = [(1, 7, []), (2, 9, [])],
      value_update_queued = False, value_update_range = (5, 5), recompile_queued = False,
      threads = [\<lparr>running = True, priority = LowPriority\<rparr>,
                 \<lparr>running = True, priority = LowPriority\<rparr>],
      processors =
         [\<lparr>available = True, worker_thread = Some 0, signals_connected = True,
           worker_params = None, inbox = [Render (Some (102, 9, []), 5, 5)]\<rparr>,
          \<lparr>available = True, worker_thread = Some 1, signals_connected = True,
           worker_params = None, inbox = []\<rparr>],
      decoder_cache = [], cache_queue = [],
      cache_name = ''Test'', cache_time = 1572,
      cache_id = ''313932303130383033325465737431353732'', error = [],
      params = example_params, last_time_requested = 0,
      frame_cache = \<lparr>time_hash_map = Map.empty,
                      frame_cache_id = ''313932303130383033325465737431353732''\<rparr>,
      cache_frame_load_buffer = [CHR 0x00, CHR 0x00, CHR 0x00, CHR 0x00]\<rparr>"
  by (simp add: example_busy_def example_compiled_def example_backend_eq)

lemma example_idle_eq:
  "example_idle =
     \<lparr>compiled = False, caching = False, started = True, viewer_node = Some (1, 7, []),
      copied_viewer_node = None, copied_graph = [], source_node_list = [],
      value_update_queued = False, value_update_range = (0, 0), recompile_queued = False,
      threads = [\<lparr>running = True, priority = LowPriority\<rparr>,
                 \<lparr>running = True, priority = LowPriority\<rparr>],
      processors =
         [\<lparr>available = True, worker_thread = Some 0, signals_connected = True,
           worker_params = None, inbox = []\<rparr>,
          \<lparr>available = True, worker_thread = Some 1, signals_connected = True,
           worker_params = None, inbox = []\<rparr>],
      decoder_cache = [], cache_queue = [],
      cache_name = ''Test'', cache_time = 1572,
      cache_id = ''313932303130383033325465737431353732'', error = [],
      params = example_params, last_time_requested = 0,
      frame_cache = \<lparr>time_hash_map = Map.empty,
                      frame_cache_id = ''313932303130383033325465737431353732''\<rparr>,
      cache_frame_load_buffer = [CHR 0x00, CHR 0x00, CHR 0x00, CHR 0x00]\<rparr>"
  by (simp add: example_idle_def example_backend_eq)


section \<open>Looking up a cached frame\<close>

text \<open>
  Claim C10.  After every call of \<open>GetCachedFrame\<close> (the spec's RequestFrame) for a time
  \<open>t\<close> the last requested time is \<open>t\<close>, whatever the call returns and on every path
  through it.
\<close>

theorem GetCachedFrame_sets_last_time_requested:
  "last_time_requested (snd (GetCachedFrame col t s)) = t"
  by (simp add: GetCachedFrame_def Let_def split: prod.splits)

text \<open>
  In the example: no viewer is attached to the backend as constructed, the call returns
  the null pointer and the time 5 is recorded all the same.
\<close>

theorem GetCachedFrame_sets_last_time_requested_witness:
  "fst (GetCachedFrame example_collab 5 example_new) = Inr None
   \<and> last_time_requested (snd (GetCachedFrame example_collab 5 example_new)) = 5"
  using GetCachedFrame_sets_last_time_requested [of example_collab 5 example_new]
  by (simp add: GetCachedFrame_def Let_def viewer_node_accessor_def example_new_eq)




section \<open>Invalidation without valid parameters\<close>

text \<open>
  Claim C9.  \<open>InvalidateCache\<close> on a backend whose parameters are not valid returns
  normally and leaves the whole state as it was: the cache queue, the frame cache and the
  queued value update among the rest.
\<close>

theorem InvalidateCache_invalid_params:
  "\<not> is_valid (params s) \<Longrightarrow> InvalidateCache col start_range end_range s = Inr s"
  by (simp add: InvalidateCache_def)

theorem InvalidateCache_invalid_params_witness:
  "\<not> is_valid (params example_new)
   \<and> InvalidateCache example_collab 0 3 example_new = Inr example_new"
proof -
  have invalid: "\<not> is_valid (params example_new)"
    by (simp add: example_new_eq example_default_params_def)
  show ?thesis
    using invalid InvalidateCache_invalid_params [OF invalid, of example_collab 0 3]
    by simp
qed

section \<open>Compiling twice\<close>

lemma Compile_compiled:
  "Compile col s = Inr (True, s') \<Longrightarrow> compiled s'"
  by (auto simp add: Compile_def Let_def split: if_splits option.splits prod.splits)

lemma Compile_recompile_queued:
  assumes hook: "\<And>x. recompile_queued (snd (CompileInternal col x)) = recompile_queued x"
      and run: "Compile col s = Inr (True, s')"
  shows "\<not> recompile_queued s'"
proof -
  have hook': "recompile_queued y = recompile_queued x"
    if "CompileInternal col x = (b, y)" for x b y
    using hook [of x] that by simp
  from run show ?thesis
    by (auto simp: Compile_def Decompile_def Let_def dest!: hook'
        split: if_splits option.splits prod.splits)
qed

text \<open>
  Claim C7, as the code has it.  In every state that is compiled and has no recompile
  queued, \<open>Compile\<close> returns true and leaves the whole state unchanged: no node is copied,
  the copied graph, the copied viewer node and the list of the source nodes are what they
  were.  A call of \<open>Compile\<close> that returns true leaves a state that is compiled, and, where
  \<open>CompileInternal\<close> of the subclass does not touch the flag, one with no recompile queued.
  \<open>GetCachedFrame\<close>, \<open>SetParameters\<close> and \<open>SetCacheName\<close> keep a state compiled and change
  no queued recompile; so every later call of \<open>Compile\<close> returns true without copying as
  long as only these are called in between.
\<close>

theorem Compile_idempotent:
  "(compiled s \<and> \<not> recompile_queued s \<longrightarrow> Compile col s = Inr (True, s))
   \<and> (\<forall>s'. Compile col s = Inr (True, s') \<longrightarrow>
        compiled s'
        \<and> ((\<forall>x. recompile_queued (snd (CompileInternal col x)) = recompile_queued x) \<longrightarrow>
            \<not> recompile_queued s' \<and> Compile col s' = Inr (True, s')))
   \<and> compiled (snd (GetCachedFrame col t s)) = compiled s
   \<and> recompile_queued (snd (GetCachedFrame col t s)) = recompile_queued s
   \<and> compiled (SetParameters col p s) = compiled s
   \<and> recompile_queued (SetParameters col p s) = recompile_queued s
   \<and> compiled (SetCacheName col now name s) = compiled s
   \<and> recompile_queued (SetCacheName col now name s) = recompile_queued s"
proof (intro conjI allI impI)
  assume "compiled s \<and> \<not> recompile_queued s"
  then show "Compile col s = Inr (True, s)" by (simp add: Compile_def)
next
  fix s'
  assume run: "Compile col s = Inr (True, s')"
  show c: "compiled s'" by (rule Compile_compiled [OF run])
  assume hook: "\<forall>x. recompile_queued (snd (CompileInternal col x)) = recompile_queued x"
  show r: "\<not> recompile_queued s'"
    by (rule Compile_recompile_queued [OF _ run]) (simp add: hook)
  from c r show "Compile col s' = Inr (True, s')" by (simp add: Compile_def)
qed (simp_all add: GetCachedFrame_def SetParameters_def SetCacheName_def RegenerateCacheID_def
      CacheIDChangedEvent_def Let_def split: prod.splits)

text \<open>
  In the example: the first call compiles the graph of the backend with a viewer, and the
  call after it changes nothing.
\<close>

theorem Compile_idempotent_witness:
  "Compile example_collab example_backend = Inr (True, example_compiled)
   \<and> compiled example_compiled \<and> \<not> recompile_queued example_compiled
   \<and> Compile example_collab example_compiled = Inr (True, example_compiled)"
proof -
  have first: "Compile example_collab example_backend = Inr (True, example_compiled)"
    by (simp add: Compile_def example_compiled_def example_backend_eq example_collab_def
        Decompile_def Let_def)
  have hook: "\<forall>x. recompile_queued (snd (CompileInternal example_collab x)) = recompile_queued x"
    by (simp add: example_collab_def)
  note after = Compile_idempotent [of example_backend example_collab, THEN conjunct2,
      THEN conjunct1, rule_format, OF first]
  from after have c: "compiled example_compiled" by simp
  from after hook have r: "\<not> recompile_queued example_compiled"
    and again: "Compile example_collab example_compiled = Inr (True, example_compiled)"
    by blast+
  from first c r again show ?thesis by simp
qed

text \<open>
  Claim C7, as stated, fails: it has every call of \<open>Compile\<close> that follows a successful one
  and comes before the next \<open>QueueRecompile\<close> return true without copying a node.
  \<open>SetViewerNode\<close> discards the compiled copy and queues no recompile.  After the viewer
  node of the compiled backend is set once more, \<open>Compile\<close> copies the nodes again; after
  it is set to null, \<open>Compile\<close> dereferences the null pointer.
\<close>

theorem Compile_counterexample:
  "Compile example_collab example_backend = Inr (True, example_compiled)
   \<and> \<not> recompile_queued (SetViewerNode example_collab (Some (1, 7, [])) example_compiled)
   \<and> copied_graph (SetViewerNode example_collab (Some (1, 7, [])) example_compiled) = []
   \<and> Compile example_collab (SetViewerNode example_collab (Some (1, 7, [])) example_compiled)
       = Inr (True, example_compiled)
   \<and> copied_graph example_compiled = [(101, 7, []), (102, 9, [])]
   \<and> \<not> recompile_queued (SetViewerNode example_collab None example_compiled)
   \<and> Compile example_collab (SetViewerNode example_collab None example_compiled)
       = Inl NullPointer"
  by (simp add: Compile_def example_compiled_def example_backend_eq
      Decompile_def SetViewerNode_def ConnectViewer_def cache_id_eval)

section \<open>The loop over the points\<close>











text \<open>
  The snapped start is a multiple of the time base: the one the floor computed in double
  precision picks.
\<close>

lemma quotient_of_value:
  assumes "quotient_of tb = (n, d)"
  shows "tb = of_int n / of_int d" "d > 0"
  using assms quotient_of_div quotient_of_denom_pos by blast+

lemma true_start_range_multiple:
  "true_start_range col tb a
     = of_int (qFloor_double col a (denominator tb) (numerator tb)) * tb"
proof -
  obtain n d where q: "quotient_of tb = (n, d)" by (cases "quotient_of tb")
  from quotient_of_value [OF q] have tb: "tb = of_int n / of_int d" and d: "d > 0" by auto
  have "Fract (k * n) d = of_int k * tb" for k
    using tb by (simp add: Fract_of_int_quotient)
  then show ?thesis
    using q by (simp add: true_start_range_def numerator_def denominator_def)
qed

lemma example_time_base:
  "numerator 1 = 1" "denominator 1 = 1"
  by (simp_all add: numerator_def denominator_def)

section \<open>Dispatch while a frame is in flight\<close>

lemma Init_started: "started s \<Longrightarrow> Init col s = Inr (True, s)"
  by (simp add: Init_def)

lemma Init_result_started: "Init col s = Inr (ok, s1) \<Longrightarrow> started s1 = ok"
  by (auto simp: Init_def Let_def split: if_splits prod.splits sum.splits)

lemma CacheNext_in_flight: "started s \<Longrightarrow> caching s \<Longrightarrow> CacheNext col s = Inr s"
  by (simp add: CacheNext_def Init_def)

lemma example_loop_1: "invalidate_loop 1 0 5 5 [] = Some [(5, 5)]"
  by (simp add: invalidate_loop.simps queue_point_def point_diff_def)

lemma example_loops:
  "invalidate_loop 1 0 1 0 [] = Some [(0, 0), (1, 1)]"
  "invalidate_loop 1 1 1 0 [] = Some [(0, 0), (1, 1)]"
  "invalidate_loop 1 0 3 3 [] = Some [(3, 3)]"
  "invalidate_loop 1 1 0 0 [(3, 3)] = Some [(3, 3), (0, 0)]"
  "invalidate_loop 1 0 0 0 [(3, 3), (0, 0)] = Some [(0, 0), (3, 3), (0, 0)]"
  by (simp_all add: invalidate_loop.simps queue_point_def point_diff_def range_in_def)

lemmas InvalidateCache_eval =
  floor_half InvalidateCache_def true_start_range_multiple example_time_base
  SequenceLength_def QueueValueUpdate_def
  Truncate_empty CacheNext_in_flight example_collab_def example_params_def Let_def

lemmas CacheNext_eval =
  CacheNext_def Init_def InitWorkers_def VideoRenderBackend_InitInternal_def resize_def
  ViewerIsConnected_def UpdateNodeInputs_def GenerateData_def Compile_def Decompile_def
  viewer_node_accessor_def range_in_def range_out_def example_collab_def example_params_def
  example_worker_def replicate_eval Let_def

text \<open>
  The backend with a dispatch in flight is what the first invalidation of a new backend
  with a viewer leaves.
\<close>

lemma example_busy_reached:
  "InvalidateCache example_collab 5 5 example_backend = Inr example_busy"
  by (simp add: InvalidateCache_def true_start_range_multiple example_time_base
      SequenceLength_def example_loop_1
      QueueValueUpdate_def Truncate_empty example_busy_eq example_backend_eq CacheNext_eval)

section \<open>The points an invalidation queues\<close>




section \<open>The order of the queue\<close>

text \<open>
  Claim C1 says that a point of smaller weighted distance to the last requested time is
  never behind a point of larger distance in the queue.  The code does not keep that
  order: the scan compares the weighted distance of the new point with the signed,
  unweighted difference of each entry, which is negative for an entry before the last
  requested time.  After the time 1 was requested, the invalidation of the range from 0
  to 1 leaves the time 0 (distance 5) at the head of the queue, before the time 1
  (distance 0).
\<close>

theorem InvalidateCache_order_example:
  "InvalidateCache example_collab 0 1 (snd (GetCachedFrame example_collab 1 example_busy)) =
     Inr (example_busy\<lparr>last_time_requested := 1, cache_queue := [(0, 0), (1, 1)],
                        value_update_queued := True, value_update_range := (0, 1)\<rparr>)
   \<and> point_diff 1 1 < point_diff 1 0"
  by (simp add: example_busy_eq InvalidateCache_eval example_loops GetCachedFrame_def
      viewer_node_accessor_def TimeToHash_def point_diff_def)

section \<open>Entries for the same time\<close>

text \<open>
  Claim C2 says that the queue never holds two entries for one time.  The scan inserts
  the new point as soon as it meets an entry of larger difference and stops, so an entry
  for the same time further behind is not seen.  With a dispatch in flight: the range
  from 3 to 3 is invalidated, the time 1 is requested, the range from 0 to 0 is
  invalidated, the time 0 is requested, and the range from 0 to 0 is invalidated again.
  The queue then holds the time 0 twice.
\<close>

theorem InvalidateCache_duplicate_example:
  "and_then (InvalidateCache example_collab 3 3 example_busy) (\<lambda>s1.
   and_then (InvalidateCache example_collab 0 0 (snd (GetCachedFrame example_collab 1 s1))) (\<lambda>s2.
             InvalidateCache example_collab 0 0 (snd (GetCachedFrame example_collab 0 s2))))
   = Inr (example_busy\<lparr>cache_queue := [(0, 0), (3, 3), (0, 0)], value_update_queued := True,
                        value_update_range := (0, 0)\<rparr>)"
  by (simp add: and_then_def example_busy_eq InvalidateCache_eval example_loops
      GetCachedFrame_def viewer_node_accessor_def TimeToHash_def)

section \<open>A setup that fails\<close>

text \<open>On a started backend \<open>Close\<close> leaves no thread and no worker.\<close>

lemma Close_started:
  "started s \<Longrightarrow> threads (Close col s) = [] \<and> processors (Close col s) = []"
  by (simp add: Close_def Let_def)

text \<open>
  Claim C4 says that \<open>Init\<close>, when the setup fails, tears down every thread it started
  and sets an error message.  \<open>Init\<close> calls \<open>Close\<close> for that, but only after it has set
  \<open>started\<close> to the result of \<open>InitInternal\<close>, which is false, and \<open>Close\<close> returns at once
  when \<open>started\<close> is false.  In the example with the subclass whose \<open>InitInternal\<close> fails,
  \<open>Init\<close> returns false and the backend is not started, but the two threads are still
  there and running, and there is no error message.
\<close>

theorem Init_failure_example:
  "Init example_failing_collab example_backend =
     Inr (False, example_backend\<lparr>threads := [\<lparr>running = True, priority = LowPriority\<rparr>,
                                              \<lparr>running = True, priority = LowPriority\<rparr>]\<rparr>)"
  by (simp add: Init_def InitWorkers_def Close_def example_failing_collab_def
      example_collab_def example_backend_eq replicate_eval)

section \<open>The cache ID as a function of its inputs\<close>

lemma RegenerateCacheID_cache_id:
  "cache_id (RegenerateCacheID col s) =
     cache_id_of col (is_valid (params s)) (width (params s)) (height (params s))
       (format (params s)) (divider (params s)) (cache_name s) (cache_time s)"
  by (simp add: RegenerateCacheID_def GenerateCacheIDInternal_def CacheIDChangedEvent_def
      cache_id_of_def addData_def Let_def)

lemma RegenerateCacheID_frame_cache_id:
  "frame_cache_id (frame_cache (RegenerateCacheID col s)) = cache_id (RegenerateCacheID col s)"
  by (simp add: RegenerateCacheID_def GenerateCacheIDInternal_def CacheIDChangedEvent_def
      SetCacheID_def Let_def)

text \<open>
  Claim C6.  After the parameters are set, and after the cache is named, the cache ID is
  the function \<open>cache_id_of\<close> of the width, the height, the format, the divider, the name
  and the creation time, and of whether the parameters are valid; nothing else of the
  parameters or of the state enters it, so two backends that agree on these get the same
  ID.  The frame cache is given the same ID.  Parameters that are not valid, and an empty
  name, give the empty ID.
\<close>

theorem cache_id_function:
  "cache_id (SetParameters col p s) =
     cache_id_of col (is_valid p) (width p) (height p) (format p) (divider p)
       (cache_name s) (cache_time s)
   \<and> cache_id (SetCacheName col now name s) =
     cache_id_of col (is_valid (params s)) (width (params s)) (height (params s))
       (format (params s)) (divider (params s)) name now
   \<and> (is_valid p = is_valid p' \<and> width p = width p' \<and> height p = height p'
        \<and> format p = format p' \<and> divider p = divider p'
        \<and> cache_name s = cache_name s' \<and> cache_time s = cache_time s' \<longrightarrow>
      cache_id (SetParameters col p s) = cache_id (SetParameters col p' s'))
   \<and> frame_cache_id (frame_cache (SetParameters col p s)) = cache_id (SetParameters col p s)
   \<and> cache_id_of col False w h f d name' time = []
   \<and> cache_id_of col valid w h f d [] time = []"
  by (simp add: SetParameters_def SetCacheName_def RegenerateCacheID_cache_id
      RegenerateCacheID_frame_cache_id Let_def)
     (simp add: cache_id_of_def)

text \<open>
  In the example: the ID of the parameters of the example, the same ID for parameters of
  another time base and mode set on the backend with a dispatch in flight, and the empty
  ID for the default parameters.
\<close>

theorem cache_id_function_witness:
  "cache_id (SetParameters example_collab example_params example_new)
     = ''313932303130383033325465737431353732''
   \<and> cache_id (SetParameters example_collab
                 (example_params\<lparr>time_base := 1 / 24, mode := 1\<rparr>) example_busy)
     = cache_id (SetParameters example_collab example_params example_new)
   \<and> cache_id (SetParameters example_collab example_default_params example_busy) = []"
proof -
  let ?p = "example_params\<lparr>time_base := 1 / 24, mode := 1\<rparr>"
  note f1 = cache_id_function [where col = example_collab and p = example_params
      and s = example_new, THEN conjunct1]
  note f3 = cache_id_function [where col = example_collab and p = example_params
      and s = example_new and p' = "?p" and s' = example_busy,
      THEN conjunct2, THEN conjunct2, THEN conjunct1, rule_format]
  note g1 = cache_id_function [where col = example_collab and p = example_default_params
      and s = example_busy, THEN conjunct1]
  have same: "cache_id (SetParameters example_collab example_params example_new)
     = cache_id (SetParameters example_collab ?p example_busy)"
    by (rule f3) (simp add: example_params_def example_new_eq example_busy_eq)
  have val: "cache_id (SetParameters example_collab example_params example_new)
     = ''313932303130383033325465737431353732''"
    unfolding f1
    by (simp add: cache_id_of_def example_params_def example_new_eq example_collab_def
        QString_number_def number_nat_eval toHex_def)
  have empty: "cache_id (SetParameters example_collab example_default_params example_busy) = []"
    unfolding g1 by (simp add: cache_id_of_def example_default_params_def)
  from same val empty show ?thesis by simp
qed

section \<open>Dispatching the head of the queue\<close>

lemma hand_over_chosen:
  "ws \<noteq> [] \<Longrightarrow>
   hand_over rq ws =
     (True, ws[first_idle_or_last ws :=
                 (ws ! first_idle_or_last ws)
                   \<lparr>inbox := inbox (ws ! first_idle_or_last ws) @ [rq]\<rparr>])"
proof (induction ws)
  case Nil
  then show ?case by simp
next
  case (Cons w ws)
  show ?case
  proof (cases "available w \<or> ws = []")
    case True
    then show ?thesis by (auto simp: first_idle_or_last_def)
  next
    case False
    then have ne: "ws \<noteq> []" and busy: "\<not> available w" by auto
    have idx: "first_idle_or_last (w # ws) = Suc (first_idle_or_last ws)"
      using ne busy by (cases ws) (auto simp: first_idle_or_last_def)
    show ?thesis
      using False Cons.IH [OF ne] by (simp add: idx)
  qed
qed

text \<open>
  What \<open>UpdateNodeInputs\<close> does to the copied graph: the node at each index of a source
  node gets the values of the inputs of that source node and loses the cached values of
  its outputs that overlap the range of the queued value update; the other nodes, the
  length of the copied graph and the rest of the state stay, and the flag is cleared.
\<close>

lemma UpdateNodeInputs_refresh:
  assumes "value_update_queued s \<longrightarrow> length (source_node_list s) \<le> length (copied_graph s)"
  shows "\<exists>g. UpdateNodeInputs col s = Inr (s\<lparr>copied_graph := g, value_update_queued := False\<rparr>)
             \<and> length g = length (copied_graph s)
             \<and> (\<forall>i < length g.
                   g ! i = (if value_update_queued s \<and> i < length (source_node_list s)
                            then drop_cached_values_overlapping col (value_update_range s)
                                   (CopyInputs col (source_node_list s ! i) (copied_graph s ! i))
                            else copied_graph s ! i))"
proof (cases "value_update_queued s")
  case False
  then have same: "s\<lparr>copied_graph := copied_graph s, value_update_queued := False\<rparr> = s"
    by simp
  from False have "UpdateNodeInputs col s = Inr s"
    by (simp add: UpdateNodeInputs_def)
  with same have "UpdateNodeInputs col s
               = Inr (s\<lparr>copied_graph := copied_graph s, value_update_queued := False\<rparr>)"
    by simp
  with False show ?thesis
    by (intro exI [of _ "copied_graph s"]) simp
next
  case True
  let ?n = "length (source_node_list s)"
  let ?g = "map (\<lambda>(src, dst). drop_cached_values_overlapping col (value_update_range s)
                                (CopyInputs col src dst))
              (zip (source_node_list s) (copied_graph s))
            @ drop ?n (copied_graph s)"
  from True assms have le: "?n \<le> length (copied_graph s)" by simp
  have run: "UpdateNodeInputs col s = Inr (s\<lparr>copied_graph := ?g, value_update_queued := False\<rparr>)"
    using True le by (simp add: UpdateNodeInputs_def)
  have len: "length ?g = length (copied_graph s)" using le by simp
  have nth: "?g ! i = (if value_update_queued s \<and> i < ?n
                       then drop_cached_values_overlapping col (value_update_range s)
                              (CopyInputs col (source_node_list s ! i) (copied_graph s ! i))
                       else copied_graph s ! i)" if "i < length ?g" for i
  proof (cases "i < ?n")
    case True
    with le show ?thesis using \<open>value_update_queued s\<close> by (simp add: nth_append)
  next
    case False
    with le that show ?thesis by (simp add: nth_append)
  qed
  from run len nth show ?thesis by blast
qed

lemma Compile_cache_queue:
  assumes c: "\<And>x. cache_queue (snd (CompileInternal col x)) = cache_queue x"
      and d: "\<And>x. cache_queue (DecompileInternal col x) = cache_queue x"
      and run: "Compile col s = Inr (ok, s')"
  shows "cache_queue s' = cache_queue s"
proof -
  have c': "cache_queue y = cache_queue x" if "CompileInternal col x = (b, y)" for x b y
    using c [of x] that by simp
  from run show ?thesis
    by (auto simp: Compile_def Let_def Decompile_def d dest!: c'
        split: if_splits option.splits prod.splits)
qed

text \<open>
  Claim C8, as the code has it.  \<open>CacheNext\<close> first calls \<open>Init\<close>, which starts a backend
  that is not started; when \<open>Init\<close> fails nothing more is done, and otherwise \<open>CacheNext\<close>
  goes on as it does on the started backend.  On a started backend it changes nothing
  when the queue is empty, no viewer node is set or a dispatch is in flight.  Otherwise,
  if a value update is queued, every copied node that has a source node gets the values
  of the inputs of its source node and loses the cached values of its outputs that
  overlap the range of the value update, which is the range of the last invalidation;
  the flag of the value update is cleared.  Then the head of the queue is removed (the
  queue is its tail, as long as the subclass leaves the queue alone) and the graph is
  compiled.  When the graph does not compile, or there is no worker, the head is dropped
  and no dispatch is in flight.  When it compiles, the head is handed to the first idle
  worker, or to the last worker when none is idle, and a dispatch is in flight.
\<close>

theorem CacheNext_dispatch:
  "(\<forall>ok s1. Init col s = Inr (ok, s1) \<longrightarrow>
      started s1 = ok \<and> CacheNext col s = (if ok then CacheNext col s1 else Inr s1))
   \<and> (started s \<and> (cache_queue s = [] \<or> viewer_node s = None \<or> caching s) \<longrightarrow>
      CacheNext col s = Inr s)
   \<and> (\<forall>h rest.
        started s \<and> cache_queue s = h # rest \<and> viewer_node s \<noteq> None \<and> \<not> caching s
        \<and> (value_update_queued s \<longrightarrow> length (source_node_list s) \<le> length (copied_graph s))
        \<longrightarrow>
        (\<exists>g. UpdateNodeInputs col s = Inr (s\<lparr>copied_graph := g, value_update_queued := False\<rparr>)
           \<and> length g = length (copied_graph s)
           \<and> (\<forall>i < length g.
                 g ! i = (if value_update_queued s \<and> i < length (source_node_list s)
                          then drop_cached_values_overlapping col (value_update_range s)
                                 (CopyInputs col (source_node_list s ! i) (copied_graph s ! i))
                          else copied_graph s ! i))
           \<and> (\<forall>ok s3.
                 Compile col (s\<lparr>copied_graph := g, value_update_queued := False,
                                cache_queue := rest\<rparr>) = Inr (ok, s3) \<longrightarrow>
                 ((\<forall>x. cache_queue (snd (CompileInternal col x)) = cache_queue x)
                  \<and> (\<forall>x. cache_queue (DecompileInternal col x) = cache_queue x) \<longrightarrow>
                  cache_queue s3 = rest)
                 \<and> CacheNext col s =
                     (if \<not> ok then Inr (s3\<lparr>caching := False\<rparr>)
                      else case copied_viewer_node s3 of
                             None \<Rightarrow> Inl NullPointer
                           | Some i \<Rightarrow>
                               if i \<ge> length (copied_graph s3) then Inl NullPointer
                               else if processors s3 = [] then Inr (s3\<lparr>caching := False\<rparr>)
                               else (let k = first_idle_or_last (processors s3);
                                         rq = Render (get_connected_output col
                                                        (copied_graph s3 ! i),
                                                      range_in h, range_out h)
                                     in Inr (s3\<lparr>processors :=
                                                  (processors s3)
                                                    [k := (processors s3 ! k)
                                                       \<lparr>inbox := inbox (processors s3 ! k)
                                                                   @ [rq]\<rparr>],
                                                caching := True\<rparr>))))))"
proof (intro conjI allI impI)
  fix ok s1
  assume i: "Init col s = Inr (ok, s1)"
  show "started s1 = ok" by (rule Init_result_started [OF i])
  then show "CacheNext col s = (if ok then CacheNext col s1 else Inr s1)"
    using i by (simp add: CacheNext_def Init_started)
next
  assume "started s \<and> (cache_queue s = [] \<or> viewer_node s = None \<or> caching s)"
  then show "CacheNext col s = Inr s"
    by (auto simp: CacheNext_def Init_started ViewerIsConnected_def)
next
  fix h rest
  assume a: "started s \<and> cache_queue s = h # rest \<and> viewer_node s \<noteq> None \<and> \<not> caching s
        \<and> (value_update_queued s \<longrightarrow> length (source_node_list s) \<le> length (copied_graph s))"
  then have fits: "value_update_queued s \<longrightarrow>
                   length (source_node_list s) \<le> length (copied_graph s)" by simp
  from UpdateNodeInputs_refresh [OF fits, of col] obtain g where
    u: "UpdateNodeInputs col s = Inr (s\<lparr>copied_graph := g, value_update_queued := False\<rparr>)"
    and len: "length g = length (copied_graph s)"
    and nth: "\<forall>i < length g.
                 g ! i = (if value_update_queued s \<and> i < length (source_node_list s)
                          then drop_cached_values_overlapping col (value_update_range s)
                                 (CopyInputs col (source_node_list s ! i) (copied_graph s ! i))
                          else copied_graph s ! i)"
    by blast
  let ?s2 = "s\<lparr>copied_graph := g, value_update_queued := False\<rparr>"
  have after: "(cache_queue s3 = rest
                  \<or> \<not> ((\<forall>x. cache_queue (snd (CompileInternal col x)) = cache_queue x)
                        \<and> (\<forall>x. cache_queue (DecompileInternal col x) = cache_queue x)))
               \<and> CacheNext col s =
                     (if \<not> ok then Inr (s3\<lparr>caching := False\<rparr>)
                      else case copied_viewer_node s3 of
                             None \<Rightarrow> Inl NullPointer
                           | Some i \<Rightarrow>
                               if i \<ge> length (copied_graph s3) then Inl NullPointer
                               else if processors s3 = [] then Inr (s3\<lparr>caching := False\<rparr>)
                               else (let k = first_idle_or_last (processors s3);
                                         rq = Render (get_connected_output col
                                                        (copied_graph s3 ! i),
                                                      range_in h, range_out h)
                                     in Inr (s3\<lparr>processors :=
                                                  (processors s3)
                                                    [k := (processors s3 ! k)
                                                       \<lparr>inbox := inbox (processors s3 ! k)
                                                                   @ [rq]\<rparr>],
                                                caching := True\<rparr>)))"
    if c: "Compile col (?s2\<lparr>cache_queue := rest\<rparr>) = Inr (ok, s3)" for ok s3
  proof -
    have keep: "cache_queue s3 = rest"
      if k: "(\<forall>x. cache_queue (snd (CompileInternal col x)) = cache_queue x)
            \<and> (\<forall>x. cache_queue (DecompileInternal col x) = cache_queue x)"
    proof -
      have "cache_queue s3 = cache_queue (?s2\<lparr>cache_queue := rest\<rparr>)"
        by (rule Compile_cache_queue [OF _ _ c]) (simp_all add: k)
      then show ?thesis by simp
    qed
    have gd: "GenerateData col h (?s2\<lparr>cache_queue := rest\<rparr>) =
       (if \<not> ok then Inr (False, s3)
        else case copied_viewer_node s3 of
               None \<Rightarrow> Inl NullPointer
             | Some i \<Rightarrow>
                 if i \<ge> length (copied_graph s3) then Inl NullPointer
                 else (let (b, ws) = hand_over
                             (Render (get_connected_output col (copied_graph s3 ! i),
                                      range_in h, range_out h)) (processors s3)
                       in Inr (b, s3\<lparr>processors := ws\<rparr>)))"
      by (simp add: GenerateData_def c viewer_node_accessor_def Let_def split: option.splits)
    have run: "CacheNext col s =
            (if \<not> ok then Inr (s3\<lparr>caching := False\<rparr>)
             else case copied_viewer_node s3 of
                    None \<Rightarrow> Inl NullPointer
                  | Some i \<Rightarrow>
                      if i \<ge> length (copied_graph s3) then Inl NullPointer
                      else if processors s3 = [] then Inr (s3\<lparr>caching := False\<rparr>)
                      else (let k = first_idle_or_last (processors s3);
                                rq = Render (get_connected_output col (copied_graph s3 ! i),
                                             range_in h, range_out h)
                            in Inr (s3\<lparr>processors :=
                                         (processors s3)
                                           [k := (processors s3 ! k)
                                                   \<lparr>inbox := inbox (processors s3 ! k) @ [rq]\<rparr>],
                                       caching := True\<rparr>)))"
      using a
      by (auto simp: CacheNext_def Init_started ViewerIsConnected_def u gd hand_over_chosen
          Let_def split: option.splits)
    from keep run show ?thesis by blast
  qed
  from u len nth after
  show "\<exists>g. UpdateNodeInputs col s = Inr (s\<lparr>copied_graph := g, value_update_queued := False\<rparr>)
           \<and> length g = length (copied_graph s)
           \<and> (\<forall>i < length g.
                 g ! i = (if value_update_queued s \<and> i < length (source_node_list s)
                          then drop_cached_values_overlapping col (value_update_range s)
                                 (CopyInputs col (source_node_list s ! i) (copied_graph s ! i))
                          else copied_graph s ! i))
           \<and> (\<forall>ok s3.
                 Compile col (s\<lparr>copied_graph := g, value_update_queued := False,
                                cache_queue := rest\<rparr>) = Inr (ok, s3) \<longrightarrow>
                 ((\<forall>x. cache_queue (snd (CompileInternal col x)) = cache_queue x)
                  \<and> (\<forall>x. cache_queue (DecompileInternal col x) = cache_queue x) \<longrightarrow>
                  cache_queue s3 = rest)
                 \<and> CacheNext col s =
                     (if \<not> ok then Inr (s3\<lparr>caching := False\<rparr>)
                      else case copied_viewer_node s3 of
                             None \<Rightarrow> Inl NullPointer
                           | Some i \<Rightarrow>
                               if i \<ge> length (copied_graph s3) then Inl NullPointer
                               else if processors s3 = [] then Inr (s3\<lparr>caching := False\<rparr>)
                               else (let k = first_idle_or_last (processors s3);
                                         rq = Render (get_connected_output col
                                                        (copied_graph s3 ! i),
                                                      range_in h, range_out h)
                                     in Inr (s3\<lparr>processors :=
                                                  (processors s3)
                                                    [k := (processors s3 ! k)
                                                       \<lparr>inbox := inbox (processors s3 ! k)
                                                                   @ [rq]\<rparr>],
                                                caching := True\<rparr>))))"
    by (intro exI [of _ g] conjI) blast+
qed

text \<open>
  In the example the copy of the viewer node gets the value 8 of the input of the viewer
  node and loses its cached value for the time 1, which is in the range of the value
  update; the time 1 is handed to the first worker and the time 2 stays queued.
\<close>

theorem CacheNext_dispatch_witness:
  "started example_ready \<and> cache_queue example_ready = [(1, 1), (2, 2)]
   \<and> viewer_node example_ready \<noteq> None \<and> \<not> caching example_ready
   \<and> value_update_queued example_ready \<and> value_update_range example_ready = (1, 2)
   \<and> source_node_list example_ready = [(1, 8, []), (2, 9, [])]
   \<and> copied_graph example_ready = [(101, 7, [(1, 1), (5, 5)]), (102, 9, [])]
   \<and> CacheNext example_collab example_ready =
       Inr (example_ready\<lparr>copied_graph := [(101, 8, [(5, 5)]), (102, 9, [])],
              value_update_queued := False, cache_queue := [(2, 2)], caching := True,
              processors :=
                [\<lparr>available = True, worker_thread = Some 0, signals_connected = True,
                  worker_params = None,
                  inbox = [Render (Some (102, 9, []), 5, 5), Render (Some (102, 9, []), 1, 1)]\<rparr>,
                 \<lparr>available = True, worker_thread = Some 1, signals_connected = True,
                  worker_params = None, inbox = []\<rparr>]\<rparr>)"
proof -
  have pre: "started example_ready \<and> cache_queue example_ready = (1, 1) # [(2, 2)]
             \<and> viewer_node example_ready \<noteq> None \<and> \<not> caching example_ready
             \<and> (value_update_queued example_ready \<longrightarrow>
                  length (source_node_list example_ready) \<le> length (copied_graph example_ready))"
    by (simp add: example_ready_def example_busy_eq)
  have st: "value_update_queued example_ready \<and> value_update_range example_ready = (1, 2)
      \<and> source_node_list example_ready = [(1, 8, []), (2, 9, [])]
      \<and> copied_graph example_ready = [(101, 7, [(1, 1), (5, 5)]), (102, 9, [])]"
    by (simp add: example_ready_def example_busy_eq)
  note d = CacheNext_dispatch [of example_collab example_ready, THEN conjunct2, THEN conjunct2,
      rule_format, of "(1, 1)" "[(2, 2)]", OF pre]
  then obtain g where len: "length g = length (copied_graph example_ready)"
    and nth: "\<forall>i < length g.
        g ! i = (if value_update_queued example_ready
                    \<and> i < length (source_node_list example_ready)
                 then drop_cached_values_overlapping example_collab
                        (value_update_range example_ready)
                        (CopyInputs example_collab (source_node_list example_ready ! i)
                           (copied_graph example_ready ! i))
                 else copied_graph example_ready ! i)"
    and after: "\<forall>ok s3.
        Compile example_collab
          (example_ready\<lparr>copied_graph := g, value_update_queued := False,
                          cache_queue := [(2, 2)]\<rparr>) = Inr (ok, s3) \<longrightarrow>
        ((\<forall>x. cache_queue (snd (CompileInternal example_collab x)) = cache_queue x)
         \<and> (\<forall>x. cache_queue (DecompileInternal example_collab x) = cache_queue x) \<longrightarrow>
         cache_queue s3 = [(2, 2)])
        \<and> CacheNext example_collab example_ready =
            (if \<not> ok then Inr (s3\<lparr>caching := False\<rparr>)
             else case copied_viewer_node s3 of
                    None \<Rightarrow> Inl NullPointer
                  | Some i \<Rightarrow>
                      if i \<ge> length (copied_graph s3) then Inl NullPointer
                      else if processors s3 = [] then Inr (s3\<lparr>caching := False\<rparr>)
                      else (let k = first_idle_or_last (processors s3);
                                rq = Render (get_connected_output example_collab
                                               (copied_graph s3 ! i),
                                             range_in (1, 1), range_out (1, 1))
                            in Inr (s3\<lparr>processors :=
                                         (processors s3)
                                           [k := (processors s3 ! k)
                                              \<lparr>inbox := inbox (processors s3 ! k) @ [rq]\<rparr>],
                                       caching := True\<rparr>)))"
    by blast
  from len st have l2: "length g = 2" by simp
  have g0: "g ! 0 = (101, 8, [(5, 5)])"
    using nth [rule_format, of 0] l2 st by (simp add: example_collab_def)
  have g1: "g ! 1 = (102, 9, [])"
    using nth [rule_format, of 1] l2 st by (simp add: example_collab_def)
  have g: "g = [(101, 8, [(5, 5)]), (102, 9, [])]"
  proof (rule nth_equalityI)
    show "length g = length [(101 :: nat, 8 :: int, [(5 :: rat, 5 :: rat)]), (102, 9, [])]"
      using l2 by simp
    fix i assume "i < length g"
    with l2 have "i = 0 \<or> i = 1" by auto
    with g0 g1 show "g ! i = [(101, 8, [(5, 5)]), (102, 9, [])] ! i" by auto
  qed
  let ?s3 = "example_ready\<lparr>copied_graph := g, value_update_queued := False,
                            cache_queue := [(2, 2)]\<rparr>"
  have c: "Compile example_collab ?s3 = Inr (True, ?s3)"
    by (simp add: Compile_def example_ready_def example_busy_eq)
  from after [rule_format, OF c]
  have "CacheNext example_collab example_ready =
       Inr (example_ready\<lparr>copied_graph := [(101, 8, [(5, 5)]), (102, 9, [])],
              value_update_queued := False, cache_queue := [(2, 2)], caching := True,
              processors :=
                [\<lparr>available = True, worker_thread = Some 0, signals_connected = True,
                  worker_params = None,
                  inbox = [Render (Some (102, 9, []), 5, 5), Render (Some (102, 9, []), 1, 1)]\<rparr>,
                 \<lparr>available = True, worker_thread = Some 1, signals_connected = True,
                  worker_params = None, inbox = []\<rparr>]\<rparr>)"
    by (simp add: g example_ready_def example_busy_eq first_idle_or_last_def example_collab_def
        range_in_def range_out_def)
  with pre st show ?thesis by simp
qed

lemma example_loops_rendered:
  "invalidate_loop 1 0 0 0 [] = Some [(0, 0)]"
  "invalidate_loop 1 0 5 5 [(0, 0)] = Some [(0, 0), (5, 5)]"
  by (simp_all add: invalidate_loop.simps queue_point_def point_diff_def range_in_def)

text \<open>
  Claim C8, as stated, fails three times.  On the backend that is not started and has an
  empty queue \<open>CacheNext\<close> is not without effect: it starts the threads and the workers.
  Where the backend is started, the queue holds the time 1, a viewer node is set and no
  dispatch is in flight, but the graph does not compile, the head of the queue is removed
  and no worker gets it.  And the refresh is not for every range invalidated since the
  last dispatch: after the ranges from 0 to 0 and from 5 to 5 were invalidated while a
  dispatch was in flight, only the second is the range of the value update, and at the
  next dispatch the copy of the viewer node keeps its cached value for the time 0.
\<close>

theorem CacheNext_counterexample:
  "\<not> IsInitiated example_backend \<and> cache_queue example_backend = []
   \<and> CacheNext example_collab example_backend = Inr example_idle
   \<and> example_idle \<noteq> example_backend
   \<and> IsInitiated example_queued \<and> cache_queue example_queued = [(1, 1)]
   \<and> ViewerIsConnected example_queued \<and> \<not> caching example_queued
   \<and> CacheNext example_uncompilable_collab example_queued =
       Inr (example_idle\<lparr>source_node_list := [(1, 7, []), (2, 9, [])],
                         copied_graph := [(101, 7, []), (102, 9, [])],
                         copied_viewer_node := Some 0\<rparr>)
   \<and> copied_graph example_rendered = [(101, 7, [(0, 0), (5, 5)]), (102, 9, [])]
   \<and> and_then (InvalidateCache example_collab 0 0 example_rendered) (\<lambda>s1.
      and_then (InvalidateCache example_collab 5 5 s1) (\<lambda>s2.
                CacheNext example_collab (s2\<lparr>caching := False\<rparr>)))
      = Inr (example_rendered\<lparr>cache_queue := [(5, 5)], value_update_range := (5, 5),
               copied_graph := [(101, 7, [(0, 0)]), (102, 9, [])],
               processors :=
                 [\<lparr>available = True, worker_thread = Some 0, signals_connected = True,
                   worker_params = None,
                   inbox = [Render (Some (102, 9, []), 5, 5),
                            Render (Some (102, 9, []), 0, 0)]\<rparr>,
                  \<lparr>available = True, worker_thread = Some 1, signals_connected = True,
                   worker_params = None, inbox = []\<rparr>]\<rparr>)"
proof -
  have a: "CacheNext example_collab example_backend = Inr example_idle"
    by (simp add: example_backend_eq example_idle_eq CacheNext_eval)
  have b: "example_idle \<noteq> example_backend"
  proof
    assume "example_idle = example_backend"
    then have "started example_idle = started example_backend" by simp
    then show False by (simp add: example_idle_eq example_backend_eq)
  qed
  have c: "CacheNext example_uncompilable_collab example_queued =
       Inr (example_idle\<lparr>source_node_list := [(1, 7, []), (2, 9, [])],
                         copied_graph := [(101, 7, []), (102, 9, [])],
                         copied_viewer_node := Some 0\<rparr>)"
    by (simp add: example_queued_def example_idle_eq example_uncompilable_collab_def CacheNext_eval)
  have i1: "InvalidateCache example_collab 0 0 example_rendered =
       Inr (example_rendered\<lparr>cache_queue := [(0, 0)], value_update_queued := True,
                             value_update_range := (0, 0)\<rparr>)"
    by (simp add: example_rendered_def example_busy_eq InvalidateCache_eval
        example_loops_rendered)
  have i2: "InvalidateCache example_collab 5 5
              (example_rendered\<lparr>cache_queue := [(0, 0)], value_update_queued := True,
                                value_update_range := (0, 0)\<rparr>) =
       Inr (example_rendered\<lparr>cache_queue := [(0, 0), (5, 5)], value_update_queued := True,
                             value_update_range := (5, 5)\<rparr>)"
    by (simp add: example_rendered_def example_busy_eq InvalidateCache_eval
        example_loops_rendered)
  have n: "CacheNext example_collab
             (example_rendered\<lparr>cache_queue := [(0, 0), (5, 5)], value_update_queued := True,
                               value_update_range := (5, 5), caching := False\<rparr>)
      = Inr (example_rendered\<lparr>cache_queue := [(5, 5)], value_update_range := (5, 5),
               copied_graph := [(101, 7, [(0, 0)]), (102, 9, [])],
               processors :=
                 [\<lparr>available = True, worker_thread = Some 0, signals_connected = True,
                   worker_params = None,
                   inbox = [Render (Some (102, 9, []), 5, 5),
                            Render (Some (102, 9, []), 0, 0)]\<rparr>,
                  \<lparr>available = True, worker_thread = Some 1, signals_connected = True,
                   worker_params = None, inbox = []\<rparr>]\<rparr>)"
    by (simp add: example_rendered_def example_busy_eq CacheNext_eval)
  have d: "and_then (InvalidateCache example_collab 0 0 example_rendered) (\<lambda>s1.
      and_then (InvalidateCache example_collab 5 5 s1) (\<lambda>s2.
                CacheNext example_collab (s2\<lparr>caching := False\<rparr>)))
      = Inr (example_rendered\<lparr>cache_queue := [(5, 5)], value_update_range := (5, 5),
               copied_graph := [(101, 7, [(0, 0)]), (102, 9, [])],
               processors :=
                 [\<lparr>available = True, worker_thread = Some 0, signals_connected = True,
                   worker_params = None,
                   inbox = [Render (Some (102, 9, []), 5, 5),
                            Render (Some (102, 9, []), 0, 0)]\<rparr>,
                  \<lparr>available = True, worker_thread = Some 1, signals_connected = True,
                   worker_params = None, inbox = []\<rparr>]\<rparr>)"
    by (simp add: and_then_def i1 i2 n)
  show ?thesis
    using a b c d
    by (simp add: IsInitiated_def ViewerIsConnected_def example_queued_def example_idle_eq
        example_backend_eq example_rendered_def example_busy_eq)
qed

end
